theory Spec2Isabelle
  imports Complex_Main "HOL-Library.Multiset" "HOL-Library.Char_ord" "HOL-Library.List_Lexorder"
begin

section \<open>Hustle: aggregations, table tags, blob resolution and select\<close>

text \<open>
  A shallow embedding of \<^verbatim>\<open>hustle/__init__.py\<close>. Python integers are \<open>int\<close>, Python
  \<open>str\<close> is \<open>string\<close>, \<open>None\<close> is the \<open>None\<close> of an option type. The classes
  \<^verbatim>\<open>Aggregation\<close>, \<^verbatim>\<open>Column\<close>, \<^verbatim>\<open>Marble\<close>, \<^verbatim>\<open>Expr\<close>, \<^verbatim>\<open>Settings\<close>, \<^verbatim>\<open>SelectPipe\<close> and the DDFS
  client live outside this file; they appear as records holding exactly the attributes and
  methods the file uses.
\<close>

subsection \<open>Python values and errors\<close>

datatype py_error = ZeroDivisionError

text \<open>Truthiness of an optional integer: \<open>None\<close> and \<open>0\<close> are falsy.\<close>

fun truthy_int :: "int option \<Rightarrow> bool" where
  "truthy_int None = False"
| "truthy_int (Some n) = (n \<noteq> 0)"

text \<open>\<^verbatim>\<open>v or 1\<close>: the left operand when it is truthy, else the right one.\<close>

definition or_int :: "int option \<Rightarrow> int \<Rightarrow> int" where
  "or_int v d = (if truthy_int v then the v else d)"

text \<open>Truthiness of a string: the empty string is falsy.\<close>

definition truthy_str :: "string \<Rightarrow> bool" where
  "truthy_str s = (s \<noteq> [])"

text \<open>Truthiness of an optional string or list: \<open>None\<close> and the empty one are falsy.\<close>

fun truthy_opt :: "'a list option \<Rightarrow> bool" where
  "truthy_opt None = False"
| "truthy_opt (Some s) = (s \<noteq> [])"

subsection \<open>Aggregations\<close>

text \<open>\<^verbatim>\<open>Column(name, table, type_indicator=...)\<close>, as far as this file constructs one.\<close>

datatype Column = Column string "string option" int

text \<open>
  \<^verbatim>\<open>Aggregation(name, column, f, g, default=...)\<close>: \<open>f\<close> accumulates, \<open>g\<close> finalizes
  (the identity when the constructor is not given one), \<open>default\<close> is a thunk.
\<close>

record ('a, 'v, 'o) Aggregation =
  agg_name :: string
  agg_column :: Column
  agg_f :: "'a \<Rightarrow> 'v \<Rightarrow> 'a"
  agg_g :: "'a \<Rightarrow> 'o"
  agg_default :: "unit \<Rightarrow> 'a"

definition h_sum :: "Column \<Rightarrow> (int, int, int) Aggregation" where
  "h_sum col = \<lparr> agg_name = ''sum'', agg_column = col,
                 agg_f = (\<lambda>a v. a + v), agg_g = (\<lambda>a. a), agg_default = (\<lambda>_. 0) \<rparr>"

definition h_count :: "(int, int option, int) Aggregation" where
  "h_count = \<lparr> agg_name = ''count'', agg_column = Column ''all'' None 1,
               agg_f = (\<lambda>a v. a + or_int v 1), agg_g = (\<lambda>a. a), agg_default = (\<lambda>_. 0) \<rparr>"

definition h_max :: "Column \<Rightarrow> (int, int, int) Aggregation" where
  "h_max col = \<lparr> agg_name = ''max'', agg_column = col,
                 agg_f = (\<lambda>a v. if a > v then a else v), agg_g = (\<lambda>a. a),
                 agg_default = (\<lambda>_. - 9223372036854775808) \<rparr>"

definition h_min :: "Column \<Rightarrow> (int, int, int) Aggregation" where
  "h_min col = \<lparr> agg_name = ''min'', agg_column = col,
                 agg_f = (\<lambda>a v. if a < v then a else v), agg_g = (\<lambda>a. a),
                 agg_default = (\<lambda>_. 9223372036854775807) \<rparr>"

text \<open>
  \<^verbatim>\<open>float(a) / c\<close> raises on \<open>c = 0\<close>. The quotient is taken in the reals; where numerator,
  denominator and quotient are small integers, as in \<open>12 / 3\<close>, the correctly rounded
  floating-point quotient is that same number.
\<close>

definition h_avg :: "Column \<Rightarrow> (int \<times> int, int, py_error + real) Aggregation" where
  "h_avg col = \<lparr> agg_name = ''avg'', agg_column = col,
                 agg_f = (\<lambda>(a, c) v. (a + v, c + 1)),
                 agg_g = (\<lambda>(a, c). if c = 0 then Inl ZeroDivisionError
                                      else Inr (real_of_int a / real_of_int c)),
                 agg_default = (\<lambda>_. (0, 0)) \<rparr>"

text \<open>
  Folding a sequence of raw values into a fresh accumulator, left to right:
  \<^verbatim>\<open>reduce(agg.f, values, agg.default())\<close>.
\<close>

definition fold_values :: "('a, 'v, 'o) Aggregation \<Rightarrow> 'v list \<Rightarrow> 'a" where
  "fold_values agg vs = foldl (agg_f agg) (agg_default agg ()) vs"

text \<open>
  A grouping of pairwise merges: a binary tree over the values. A leaf folds its value into
  a fresh accumulator; an inner node merges the partial results of its two sides with the
  same accumulate callback.
\<close>

datatype 'v merge_tree = Leaf 'v | Node "'v merge_tree" "'v merge_tree"

fun fringe :: "'v merge_tree \<Rightarrow> 'v list" where
  "fringe (Leaf v) = [v]"
| "fringe (Node l r) = fringe l @ fringe r"

fun merge_all :: "('a, 'a, 'o) Aggregation \<Rightarrow> 'a merge_tree \<Rightarrow> 'a" where
  "merge_all agg (Leaf v) = agg_f agg (agg_default agg ()) v"
| "merge_all agg (Node l r) = agg_f agg (merge_all agg l) (merge_all agg r)"

subsection \<open>Tags\<close>

definition TAG_PREFIX :: string where
  "TAG_PREFIX = ''hustle:''"

text \<open>
  \<^verbatim>\<open>Table.base_tag(name, partition=None, extension='')\<close>. A partition value is a string
  (partition columns are uncompressed strings), so \<^verbatim>\<open>str(partition)\<close> is the value itself;
  the parameter \<^verbatim>\<open>partition\<close> is written \<open>part\<close>.
\<close>

definition base_tag :: "string \<Rightarrow> string option \<Rightarrow> string \<Rightarrow> string" where
  "base_tag name part extension =
     (let rval = ''hustle:'' @ name;
          rval = (if truthy_str extension then rval @ '':'' @ extension else rval);
          rval = (if truthy_opt part then rval @ '':'' @ the part else rval)
      in rval)"

text \<open>The local \<^verbatim>\<open>part_tag(name, partition=None)\<close> of \<^verbatim>\<open>insert\<close>.\<close>

definition part_tag :: "string \<Rightarrow> string option \<Rightarrow> string" where
  "part_tag name part =
     (let rval = ''hustle:'' @ name;
          rval = (if truthy_opt part then rval @ '':'' @ the part else rval)
      in rval)"

subsection \<open>Tables, predicates and the tag store\<close>

text \<open>One blob is the list of its replica locations.\<close>

type_synonym blob = "string list"

text \<open>
  A \<^verbatim>\<open>Table\<close> with the attributes \<^verbatim>\<open>_name\<close>, \<^verbatim>\<open>_partition\<close> and \<^verbatim>\<open>_blobs\<close> that this file
  reads, and the field specifications it was built from. \<^verbatim>\<open>Table.__init__\<close> hands name,
  fields and partition to \<^verbatim>\<open>Marble.__init__\<close> and sets \<^verbatim>\<open>_blobs\<close> to \<open>None\<close>.
\<close>

record Table =
  t_name :: string
  t_fields :: "string list"
  t_partition :: "string option"
  t_blobs :: "blob list option"

definition Table_init :: "string \<Rightarrow> string list \<Rightarrow> string option \<Rightarrow> Table" where
  "Table_init name flds part =
     \<lparr> t_name = name, t_fields = flds, t_partition = part, t_blobs = None \<rparr>"

text \<open>
  A bound predicate (\<^verbatim>\<open>Expr\<close>): its \<^verbatim>\<open>table\<close> attribute and its \<^verbatim>\<open>partition(tags)\<close> method,
  which is a parameter of the model.
\<close>

record Expr =
  e_table :: Table
  e_partition :: "string list \<Rightarrow> string list"

text \<open>
  What \<^verbatim>\<open>select\<close> and \<^verbatim>\<open>_get_blobs\<close> receive: a bare table, or an object with a \<^verbatim>\<open>table\<close>
  attribute (\<^verbatim>\<open>hasattr(table_or_expr, 'table')\<close>).
\<close>

datatype where_clause = WTable Table | WExpr Expr

text \<open>
  Modelled from the spec: the \<^verbatim>\<open>_name\<close> attribute of a bound predicate, defined by the
  \<^verbatim>\<open>Expr\<close> class outside this file, is the name of the table the predicate references.
\<close>

fun where_name :: "where_clause \<Rightarrow> string" where
  "where_name (WTable t) = t_name t"
| "where_name (WExpr e) = t_name (e_table e)"

text \<open>
  The DDFS client, as far as it is read: \<^verbatim>\<open>list(prefix)\<close>, \<^verbatim>\<open>blobs(tag)\<close> and \<^verbatim>\<open>exists(tag)\<close>
  are parameters. No function of this file reads the store after writing to it, so the
  answers are those of the store as the function finds it.
\<close>

record DDFS =
  ddfs_list :: "string \<Rightarrow> string list"
  ddfs_blobs :: "string \<Rightarrow> blob list"
  ddfs_exists :: "string \<Rightarrow> bool"

text \<open>The values handed to \<^verbatim>\<open>ujson.dumps\<close>: a list of field specifications, a name, or \<open>None\<close>.\<close>

datatype json = JNull | JString string | JList "string list"

subsection \<open>The query interface\<close>

text \<open>A projected column or aggregation: its \<^verbatim>\<open>name\<close> and \<^verbatim>\<open>is_numeric\<close> attributes.\<close>

record proj_item =
  p_name :: string
  p_is_numeric :: bool

text \<open>\<^verbatim>\<open>limit\<close>: a number or a pair of offset and total number.\<close>

datatype limit = Limit int | Limit_offset int int

text \<open>
  The keyword arguments of \<^verbatim>\<open>select\<close>, as the \<^verbatim>\<open>Settings\<close> mapping built from them. The
  record \<open>Settings\<close> holds the keys that \<^verbatim>\<open>select\<close> reads without removing them
  (\<^verbatim>\<open>settings['ddfs']\<close>, \<^verbatim>\<open>settings['dump']\<close>, \<^verbatim>\<open>settings['server']\<close>, and
  \<^verbatim>\<open>settings.get\<close> of \<^verbatim>\<open>partition\<close> and \<^verbatim>\<open>nest\<close>, where \<open>None\<close> is an absent key); the
  extension \<open>kwargs\<close> adds the keys that \<^verbatim>\<open>settings.pop\<close> removes, each with its default
  filled in and \<^verbatim>\<open>ensure_list\<close> applied. The \<open>Settings\<close> part of a \<open>kwargs\<close> value is
  therefore what \<^verbatim>\<open>**settings\<close> forwards to \<^verbatim>\<open>job.run\<close>.
\<close>

record Settings =
  s_ddfs :: DDFS
  s_dump :: bool
  s_server :: string
  s_partition :: "int option"
  s_nest :: "bool option"

record kwargs = Settings +
  k_where :: "where_clause list"
  k_order_by :: "string list"
  k_join :: "string list"
  k_distinct :: bool
  k_desc :: bool
  k_limit :: "limit option"

text \<open>The arguments of the \<^verbatim>\<open>SelectPipe\<close> constructor.\<close>

record SelectPipe =
  sp_server :: string
  sp_wheres :: "where_clause list"
  sp_project :: "proj_item list"
  sp_order_by :: "string list"
  sp_join :: "string list"
  sp_distinct :: bool
  sp_desc :: bool
  sp_limit :: "limit option"
  sp_partition :: int
  sp_nest :: bool

text \<open>
  Everything a function of this file does besides returning: what it prints, and the calls
  it makes on the tag store and on the job, in order, with their arguments. The text that
  \<^verbatim>\<open>_print_line\<close> and \<^verbatim>\<open>dump\<close> render is not modelled; their calls are recorded.
\<close>

datatype event =
    Print string
  | DDFS_list string
  | DDFS_blobs string
  | DDFS_exists string
  | DDFS_setattr string string json
  | Job_run SelectPipe string "blob set" Settings
  | Job_wait
  | Print_line "string list" nat nat "nat list"
  | Dump "blob list" nat

text \<open>
  The collaborators of \<^verbatim>\<open>select\<close>: \<^verbatim>\<open>check_query\<close> returns the message of the
  \<^verbatim>\<open>ValueError\<close> it raises, or \<open>None\<close> when it returns; \<open>job_wait\<close> is the result of
  \<^verbatim>\<open>job.wait()\<close> after \<^verbatim>\<open>job.run\<close> with the given arguments; \<open>get_result_schema\<close> is the
  method of that name.
\<close>

record Env =
  check_query ::
    "proj_item list \<Rightarrow> string list \<Rightarrow> string list \<Rightarrow> limit option \<Rightarrow> where_clause list
       \<Rightarrow> string option"
  job_wait :: "SelectPipe \<Rightarrow> string \<Rightarrow> blob set \<Rightarrow> Settings \<Rightarrow> blob list"
  get_result_schema :: "SelectPipe \<Rightarrow> proj_item list \<Rightarrow> Table"

datatype select_result = RNone | RTable Table | RBlobs "blob list"

subsection \<open>Table.create\<close>

definition json_of_partition :: "string option \<Rightarrow> json" where
  "json_of_partition part = (case part of None \<Rightarrow> JNull | Some p \<Rightarrow> JString p)"

text \<open>
  \<^verbatim>\<open>Table.create(name, fields, partition, force)\<close>: the table, or \<open>None\<close> when the base tag
  exists and \<^verbatim>\<open>force\<close> is false.
\<close>

definition create ::
  "DDFS \<Rightarrow> string \<Rightarrow> string list \<Rightarrow> string option \<Rightarrow> bool \<Rightarrow> Table option \<times> event list"
where
  "create ddfs name flds part force =
     (let writes = [DDFS_setattr (base_tag name None []) ''_fields_'' (JList flds),
                    DDFS_setattr (base_tag name None []) ''_partition_'' (json_of_partition part)];
          made = Some (Table_init name flds part)
      in if ddfs_exists ddfs (base_tag name None []) then
           (if force then
              (made, [DDFS_exists (base_tag name None []), Print ''Table already exists...'',
                      Print ''   Overwriting schema...''] @ writes)
            else
              (None, [DDFS_exists (base_tag name None []), Print ''Table already exists...'']))
         else (made, DDFS_exists (base_tag name None []) # writes))"

text \<open>
  Modelled from the spec: the store keeps one string per tag and attribute key
  (\<^verbatim>\<open>setAttr(tag, key)\<close>); the persisted metadata after a run is the metadata before it,
  overwritten by the \<^verbatim>\<open>setattr\<close> calls of the run in order.
\<close>

fun persist :: "event \<Rightarrow> (string \<times> string \<rightharpoonup> json) \<Rightarrow> (string \<times> string \<rightharpoonup> json)" where
  "persist (DDFS_setattr tag key v) m = m((tag, key) \<mapsto> v)"
| "persist _ m = m"

definition persisted :: "event list \<Rightarrow> (string \<times> string \<rightharpoonup> json) \<Rightarrow> (string \<times> string \<rightharpoonup> json)" where
  "persisted evs m = fold persist evs m"

fun is_setattr :: "event \<Rightarrow> bool" where
  "is_setattr (DDFS_setattr tag key v) = True"
| "is_setattr _ = False"

subsection \<open>Blob resolution\<close>

text \<open>
  The loop \<^verbatim>\<open>for tag in tags: rval.extend(ddfs.blobs(tag))\<close>, with the result list and the
  events so far.
\<close>

fun extend_blobs ::
  "DDFS \<Rightarrow> string list \<Rightarrow> blob list \<Rightarrow> event list \<Rightarrow> blob list \<times> event list"
where
  "extend_blobs ddfs [] rval evs = (rval, evs)"
| "extend_blobs ddfs (tag # tags) rval evs =
     extend_blobs ddfs tags (rval @ ddfs_blobs ddfs tag) (evs @ [DDFS_blobs tag])"

text \<open>
  \<^verbatim>\<open>_get_blobs(table_or_expr, ddfs)\<close>. A predicate object is truthy; \<^verbatim>\<open>tag[len(basetag):]\<close>
  drops the first \<^verbatim>\<open>len(basetag)\<close> characters.
\<close>

definition get_blobs :: "where_clause \<Rightarrow> DDFS \<Rightarrow> blob list \<times> event list" where
  "get_blobs table_or_expr ddfs =
     (let table = (case table_or_expr of WTable t \<Rightarrow> t | WExpr e \<Rightarrow> e_table e);
          whr = (case table_or_expr of WTable t \<Rightarrow> None | WExpr e \<Rightarrow> Some e)
      in if truthy_opt (t_blobs table) then (the (t_blobs table), [])
         else if whr \<noteq> None \<and> truthy_opt (t_partition table) then
           (let basetag = base_tag (t_name table) None [] @ '':'';
                tags = map (drop (length basetag)) (ddfs_list ddfs basetag);
                seltags = map (\<lambda>part. base_tag (t_name table) (Some part) [])
                              (e_partition (the whr) tags)
            in extend_blobs ddfs seltags [] [DDFS_list basetag])
         else
           (let tags = ddfs_list ddfs (base_tag (t_name table) None [])
            in extend_blobs ddfs tags [] [DDFS_list (base_tag (t_name table) None [])]))"

subsection \<open>select\<close>

definition ALG_RIGHT :: nat where "ALG_RIGHT = 0x01"
definition ALG_LEFT :: nat where "ALG_LEFT = 0x10"
definition ALG_CENTER :: nat where "ALG_CENTER = 0x20"

text \<open>\<^verbatim>\<open>sep.join(items)\<close>.\<close>

fun str_join :: "string \<Rightarrow> string list \<Rightarrow> string" where
  "str_join sep [] = []"
| "str_join sep [x] = x"
| "str_join sep (x # y # ys) = x @ sep @ str_join sep (y # ys)"

text \<open>\<^verbatim>\<open>_print_separator(width)\<close> prints \<^verbatim>\<open>"- - " * (width / 4)\<close>.\<close>

definition print_separator :: "nat \<Rightarrow> event list" where
  "print_separator width = [Print (concat (replicate (width div 4) ''- - ''))]"

text \<open>
  The loop \<^verbatim>\<open>for where in wheres: job_blobs.update(tuple(sorted(w)) for w in
  _get_blobs(where, ddfs))\<close>; strings are ordered as Python orders them, character by
  character.
\<close>

fun collect_blobs ::
  "DDFS \<Rightarrow> where_clause list \<Rightarrow> blob set \<Rightarrow> event list \<Rightarrow> blob set \<times> event list"
where
  "collect_blobs ddfs [] job_blobs evs = (job_blobs, evs)"
| "collect_blobs ddfs (whr # wheres) job_blobs evs =
     (case get_blobs whr ddfs of (bs, evs') \<Rightarrow>
        collect_blobs ddfs wheres (job_blobs \<union> set (map sort bs)) (evs @ evs'))"

text \<open>
  \<^verbatim>\<open>select(*project, **kwargs)\<close>. The message printed for an invalid query has a line break
  after the colon.
\<close>

definition select :: "Env \<Rightarrow> proj_item list \<Rightarrow> kwargs \<Rightarrow> select_result \<times> event list" where
  "select env project kw =
     (let settings = Settings.truncate kw;
          wheres = k_where kw;
          order_by = k_order_by kw;
          join = k_join kw;
          distinct = k_distinct kw;
          desc = k_desc kw;
          limit = k_limit kw;
          ddfs = s_ddfs settings;
          autodump = s_dump settings;
          part = (case s_partition settings of None \<Rightarrow> 0 | Some p \<Rightarrow> p);
          part = (if part < 0 then 0 else part);
          nest = (case s_nest settings of None \<Rightarrow> False | Some b \<Rightarrow> b)
      in case check_query env project join order_by limit wheres of
           Some e \<Rightarrow> (RNone, [Print (''  Invalid query:'' @ [CHR 0x0A] @ ''    '' @ e)])
         | None \<Rightarrow>
            (let name = take 64 (str_join ''-'' (map where_name wheres));
                 (job_blobs, evs) = collect_blobs ddfs wheres {} [];
                 job = \<lparr> sp_server = s_server settings, sp_wheres = wheres,
                         sp_project = project, sp_order_by = order_by, sp_join = join,
                         sp_distinct = distinct, sp_desc = desc, sp_limit = limit,
                         sp_partition = part, sp_nest = nest \<rparr>;
                 evs = evs @ [Job_run job (''select_from_'' @ name) job_blobs settings];
                 blobs = job_wait env job (''select_from_'' @ name) job_blobs settings;
                 evs = evs @ [Job_wait]
             in if nest then
                  (RTable ((get_result_schema env job project)\<lparr> t_blobs := Some blobs \<rparr>), evs)
                else if autodump then
                  (let cols = map p_name project
                   in (RNone,
                       evs @ print_separator 80
                       @ [Print_line cols 80 (length cols)
                            (map (\<lambda>c. if p_is_numeric c then ALG_RIGHT else ALG_LEFT) project)]
                       @ print_separator 80
                       @ [Dump blobs 80]))
                else (RBlobs blobs, evs)))"

text \<open>
  The \<^verbatim>\<open>job.run\<close> calls among the events of a run: the job names, the constructor arguments
  with name and input, and the keyword arguments forwarded.
\<close>

fun run_of :: "event \<Rightarrow> (SelectPipe \<times> string \<times> blob set \<times> Settings) option" where
  "run_of (Job_run job name input settings) = Some (job, name, input, settings)"
| "run_of _ = None"

definition runs :: "event list \<Rightarrow> (SelectPipe \<times> string \<times> blob set \<times> Settings) list" where
  "runs evs = List.map_filter run_of evs"

definition job_names :: "event list \<Rightarrow> string list" where
  "job_names evs = map (\<lambda>(job, name, input, settings). name) (runs evs)"

definition jobs_submitted :: "event list \<Rightarrow> (SelectPipe \<times> string \<times> blob set) list" where
  "jobs_submitted evs = map (\<lambda>(job, name, input, settings). (job, name, input)) (runs evs)"

definition settings_forwarded :: "event list \<Rightarrow> Settings list" where
  "settings_forwarded evs = map (\<lambda>(job, name, input, settings). settings) (runs evs)"

text \<open>The \<^verbatim>\<open>SelectPipe\<close> that \<^verbatim>\<open>select\<close> constructs from its arguments.\<close>

definition job_of :: "proj_item list \<Rightarrow> kwargs \<Rightarrow> SelectPipe" where
  "job_of project kw =
     \<lparr> sp_server = s_server kw, sp_wheres = k_where kw, sp_project = project,
       sp_order_by = k_order_by kw, sp_join = k_join kw, sp_distinct = k_distinct kw,
       sp_desc = k_desc kw, sp_limit = k_limit kw,
       sp_partition = (case s_partition kw of None \<Rightarrow> 0 | Some p \<Rightarrow> if p < 0 then 0 else p),
       sp_nest = (case s_nest kw of None \<Rightarrow> False | Some b \<Rightarrow> b) \<rparr>"

text \<open>
  The job name as the specification words it: the table names sorted, joined and cut to
  the length bound.
\<close>

definition sorted_job_name :: "where_clause list \<Rightarrow> string" where
  "sorted_job_name wheres =
     ''select_from_'' @ take 64 (str_join ''-'' (sort (map where_name wheres)))"

subsection \<open>A small store and queries over it\<close>

text \<open>
  A store with two unpartitioned tables \<open>a\<close> and \<open>b\<close> and a table \<open>logs\<close> partitioned by
  date, every data tag holding one blob with two replicas; \<open>list\<close> answers with the tags
  that start with the prefix.
\<close>

definition example_ddfs :: DDFS where
  "example_ddfs =
     \<lparr> ddfs_list = (\<lambda>p. filter (\<lambda>tag. take (length p) tag = p)
          [''hustle:a'', ''hustle:b'', ''hustle:logs'', ''hustle:logs:2014-01-01'',
           ''hustle:logs:2014-01-02'']),
       ddfs_blobs = (\<lambda>tag. if tag = ''hustle:logs'' then []
                             else [[''disco://n2/'' @ tag, ''disco://n1/'' @ tag]]),
       ddfs_exists = (\<lambda>tag. tag \<in> set [''hustle:a'', ''hustle:b'', ''hustle:logs'']) \<rparr>"

text \<open>A table wrapping the result of a nested query that produced no blobs.\<close>

definition example_nested :: Table where
  "example_nested = \<lparr> t_name = ''a'', t_fields = [], t_partition = None, t_blobs = Some [] \<rparr>"

text \<open>A table wrapping the result of a nested query that produced one blob.\<close>

definition example_chained :: Table where
  "example_chained =
     \<lparr> t_name = ''sub'', t_fields = [], t_partition = None,
       t_blobs = Some [[''disco://n1/select_from_a'']] \<rparr>"

definition example_chained_expr :: Expr where
  "example_chained_expr = \<lparr> e_table = example_chained, e_partition = (\<lambda>tags. tags) \<rparr>"

definition example_logs :: Table where
  "example_logs = Table_init ''logs'' [''+$date'', ''@4hits''] (Some ''date'')"

text \<open>The predicate \<^verbatim>\<open>logs.date == '2014-01-02'\<close>.\<close>

definition example_expr :: Expr where
  "example_expr = \<lparr> e_table = example_logs, e_partition = filter (\<lambda>v. v = ''2014-01-02'') \<rparr>"

text \<open>A validator that rejects a query without predicates, and an engine with one result blob.\<close>

definition example_env :: Env where
  "example_env =
     \<lparr> check_query = (\<lambda>project join order_by limit wheres.
          case wheres of [] \<Rightarrow> Some ''Where clause must have at least one table.''
                       | _ \<Rightarrow> None),
       job_wait = (\<lambda>job name input settings. [[''disco://n1/'' @ name]]),
       get_result_schema = (\<lambda>job project. Table_init ''sub'' (map p_name project) None) \<rparr>"

text \<open>\<^verbatim>\<open>select(where=(b, a))\<close> on that store.\<close>

definition example_kwargs :: kwargs where
  "example_kwargs =
     \<lparr> s_ddfs = example_ddfs, s_dump = False, s_server = ''disco://localhost'',
       s_partition = None, s_nest = None,
       k_where = [WTable (Table_init ''b'' [''@4v''] None),
                  WTable (Table_init ''a'' [''@4v''] None)],
       k_order_by = [], k_join = [], k_distinct = False, k_desc = False, k_limit = None \<rparr>"

section \<open>Properties\<close>

subsection \<open>Aggregations\<close>

lemma foldl_avg_acc:
  "foldl (\<lambda>(a, c) v. (a + v, c + 1)) (a0::int, c0::int) vs
     = (a0 + sum_list vs, c0 + int (length vs))"
  by (induction vs arbitrary: a0 c0) auto

lemma merge_all_h_sum: "merge_all (h_sum col) t = sum_list (fringe t)"
  by (induction t) (simp_all add: h_sum_def)

lemma fold_values_h_avg:
  "fold_values (h_avg col) vs = (sum_list vs, int (length vs))"
  using foldl_avg_acc [of 0 0 vs] by (simp add: fold_values_def h_avg_def)

lemma fold_values_h_avg_mset:
  assumes "mset vs = mset ws"
  shows "fold_values (h_avg col) vs = fold_values (h_avg col) ws"
proof -
  have "sum_list vs = sum_list ws"
    using assms by (metis sum_mset_sum_list)
  moreover have "length vs = length ws"
    using assms by (metis size_mset)
  ultimately show ?thesis
    by (simp add: fold_values_h_avg)
qed

lemma count_f_eq: "agg_f h_count a v = a + or_int v 1"
  by (simp add: h_count_def)

text \<open>
  C1, as stated: the accumulate callback of \<open>h_count\<close> adds exactly one for every value.
  It does not: a truthy value is added itself, so the value 2 adds two.
\<close>

theorem C1_count_adds_one_counterexample:
  "agg_f h_count 0 (Some 2) = 2 \<and> agg_f h_count 0 (Some 2) \<noteq> 0 + 1"
  by (simp add: count_f_eq or_int_def)

text \<open>
  C1, amended: the accumulate callback of \<open>h_count\<close> adds one when the value is absent or
  falsy (\<open>None\<close> or \<open>0\<close>) and adds the value itself when it is truthy (so the value 1 counts
  one occurrence, and a partial count is merged by addition); folding any number of
  absent values from \<open>default()\<close> counts them.
\<close>

theorem C1_count_accumulate:
  "(\<not> truthy_int v \<longrightarrow> agg_f h_count a v = a + 1)
   \<and> (truthy_int (Some n) \<longrightarrow> agg_f h_count a (Some n) = a + n)
   \<and> agg_f h_count a (Some 1) = a + 1
   \<and> fold_values h_count (replicate k None) = int k"
proof -
  have "foldl (agg_f h_count) b (replicate k None) = b + int k" for b
    by (induction k arbitrary: b) (simp_all add: count_f_eq or_int_def)
  from this [of 0] have "fold_values h_count (replicate k None) = int k"
    by (simp add: fold_values_def h_count_def)
  then show ?thesis
    by (simp add: count_f_eq or_int_def)
qed

theorem C1_count_accumulate_witness:
  "\<not> truthy_int None \<and> agg_f h_count 5 None = 6
   \<and> \<not> truthy_int (Some 0) \<and> agg_f h_count 5 (Some 0) = 6
   \<and> truthy_int (Some 3) \<and> agg_f h_count 5 (Some 3) = 8
   \<and> fold_values h_count (replicate 4 None) = 4"
  using C1_count_accumulate [where v = None and a = 5 and n = 3 and k = 4]
    C1_count_accumulate [where v = "Some 0" and a = 5 and n = 3 and k = 4]
  by simp

text \<open>
  C2: every grouping of pairwise merges of the values 3, -1, 4, 1, 5 with the accumulate
  callback of \<open>h_sum\<close>, leaves folded into \<open>default()\<close>, gives 12; folding 2, 4, 6 in any
  order with the accumulate callback of \<open>h_avg\<close> from \<open>default()\<close> gives \<open>(12, 3)\<close>, which
  finalize maps to 4.0.
\<close>

theorem C2_merge_order_independence:
  "(fringe t = [3, - 1, 4, 1, 5] \<longrightarrow> merge_all (h_sum col) t = 12)
   \<and> (mset vs = mset [2, 4, 6] \<longrightarrow> fold_values (h_avg col) vs = (12, 3))
   \<and> agg_g (h_avg col) (12, 3) = Inr 4"
proof (intro conjI impI)
  assume "fringe t = [3, - 1, 4, 1, 5]"
  then show "merge_all (h_sum col) t = 12"
    by (simp add: merge_all_h_sum)
next
  assume "mset vs = mset [2, 4, 6]"
  then have "fold_values (h_avg col) vs = fold_values (h_avg col) [2, 4, 6]"
    by (rule fold_values_h_avg_mset)
  then show "fold_values (h_avg col) vs = (12, 3)"
    by (simp add: fold_values_h_avg)
next
  show "agg_g (h_avg col) (12, 3) = Inr 4"
    by (simp add: h_avg_def)
qed

theorem C2_merge_order_independence_witness:
  "fringe (Node (Node (Leaf 3) (Leaf (- 1))) (Node (Leaf 4) (Node (Leaf 1) (Leaf 5))))
     = [3, - 1, 4, 1, 5::int]
   \<and> merge_all (h_sum (Column ''salary'' (Some ''employee'') 0))
       (Node (Node (Leaf 3) (Leaf (- 1))) (Node (Leaf 4) (Node (Leaf 1) (Leaf 5)))) = 12
   \<and> mset [6, 2, 4::int] = mset [2, 4, 6]
   \<and> fold_values (h_avg (Column ''salary'' (Some ''employee'') 0)) [6, 2, 4] = (12, 3)"
  using C2_merge_order_independence
    [of "Node (Node (Leaf 3) (Leaf (- 1))) (Node (Leaf 4) (Node (Leaf 1) (Leaf 5)))"
        "Column ''salary'' (Some ''employee'') 0" "[6, 2, 4]"]
  by simp

subsection \<open>Tags\<close>

text \<open>
  C7: the tag of a name alone is the tag with no partition; the tag with a non-empty
  partition value \<open>p\<close> is the tag of the name, then \<open>:\<close>, then \<open>p\<close>; and every tag has the
  form prefix, name, optional \<open>:\<close> extension, optional \<open>:\<close> partition value.
\<close>

theorem C7_base_tag_format:
  "base_tag name None [] = TAG_PREFIX @ name
   \<and> (p \<noteq> [] \<longrightarrow> base_tag name (Some p) [] = base_tag name None [] @ '':'' @ p)
   \<and> base_tag name part extension =
       TAG_PREFIX @ name
       @ (if extension \<noteq> [] then '':'' @ extension else [])
       @ (case part of None \<Rightarrow> [] | Some q \<Rightarrow> if q \<noteq> [] then '':'' @ q else [])"
  by (cases part) (simp_all add: base_tag_def TAG_PREFIX_def truthy_str_def)

theorem C7_base_tag_format_witness:
  "''2014-02-21'' \<noteq> []
   \<and> base_tag ''employees'' (Some ''2014-02-21'') [] = ''hustle:employees:2014-02-21''
   \<and> base_tag ''employees'' None [] = ''hustle:employees''"
  using C7_base_tag_format [of "''employees''" "''2014-02-21''" None "[]"]
  by (simp add: TAG_PREFIX_def)

text \<open>
  C8: the \<open>part_tag\<close> of \<open>insert\<close> builds the same string as \<open>base_tag\<close> with no extension,
  for every name and every partition value.
\<close>

theorem C8_part_tag_is_base_tag:
  "part_tag name part = base_tag name part []"
  by (simp add: part_tag_def base_tag_def truthy_str_def)

subsection \<open>Blob resolution\<close>

lemma extend_blobs_eq:
  "extend_blobs ddfs tags rval evs
     = (rval @ concat (map (ddfs_blobs ddfs) tags), evs @ map DDFS_blobs tags)"
  by (induction tags arbitrary: rval evs) simp_all

lemma base_tag_partition:
  "p \<noteq> [] \<Longrightarrow> base_tag name (Some p) [] = base_tag name None [] @ '':'' @ p"
  by (simp add: base_tag_def truthy_str_def)

lemma strip_prefix_listed:
  assumes "\<forall>tag \<in> set listed. take (length pre) tag = pre"
  shows "map (\<lambda>v. pre @ v) (map (drop (length pre)) listed) = listed"
  using assms
proof (induction listed)
  case Nil
  then show ?case by simp
next
  case (Cons tag listed)
  have "pre @ drop (length pre) tag = take (length pre) tag @ drop (length pre) tag"
    using Cons.prems by simp
  then have "pre @ drop (length pre) tag = tag"
    by simp
  with Cons show ?case by simp
qed

text \<open>
  C3, as stated: every table that carries a materialized blob set gets it back unchanged,
  with no call on the store. The test \<^verbatim>\<open>if table._blobs\<close> is a truthiness test, so a table
  whose materialized blob set is empty is resolved through the store like any other table.
\<close>

theorem C3_materialized_empty_counterexample:
  "t_blobs example_nested = Some []
   \<and> get_blobs (WTable example_nested) example_ddfs
       = ([[''disco://n2/hustle:a'', ''disco://n1/hustle:a'']],
          [DDFS_list ''hustle:a'', DDFS_blobs ''hustle:a''])
   \<and> get_blobs (WTable example_nested) example_ddfs \<noteq> (the (t_blobs example_nested), [])"
  by (simp add: get_blobs_def example_nested_def example_ddfs_def base_tag_def truthy_str_def)

text \<open>
  C3, amended: for every table that carries a non-empty materialized blob set,
  \<open>get_blobs\<close> returns that blob set unchanged and makes no call on the store, whether the
  table is passed bare or under a predicate.
\<close>

theorem C3_materialized_blobs:
  assumes "t_blobs table = Some bs" and "bs \<noteq> []"
  shows "get_blobs (WTable table) ddfs = (bs, [])
         \<and> (e_table e = table \<longrightarrow> get_blobs (WExpr e) ddfs = (bs, []))"
  using assms by (simp add: get_blobs_def)

theorem C3_materialized_blobs_witness:
  "t_blobs example_chained = Some [[''disco://n1/select_from_a'']]
   \<and> [[''disco://n1/select_from_a'']] \<noteq> []
   \<and> get_blobs (WTable example_chained) example_ddfs = ([[''disco://n1/select_from_a'']], [])
   \<and> e_table example_chained_expr = example_chained
   \<and> get_blobs (WExpr example_chained_expr) example_ddfs = ([[''disco://n1/select_from_a'']], [])"
  using C3_materialized_blobs
    [where table = example_chained and bs = "[[''disco://n1/select_from_a'']]"
       and e = example_chained_expr
       and ddfs = example_ddfs]
  by (simp add: example_chained_def example_chained_expr_def)

lemma seltags_prefixed:
  "[] \<notin> set ps \<Longrightarrow>
     map (\<lambda>p. base_tag name (Some p) []) ps = map (\<lambda>v. (base_tag name None [] @ '':'') @ v) ps"
  by (induction ps) (auto simp: base_tag_partition)

text \<open>
  C4: for a predicate over a partitioned table without materialized blobs, \<open>get_blobs\<close>
  lists the tags under the base tag followed by the separator, drops that prefix from
  each listed tag, passes the values to the predicate's \<open>partition\<close> method, resolves the
  tag of each surviving value to its blobs in order, and returns the concatenation; the
  store is called once to list and once per surviving value. Where every listed tag
  starts with the prefix, the values are the listed tags without it, and the tag of a
  non-empty value is the prefix followed by the value.
\<close>

theorem C4_partition_pruned_blobs:
  assumes "\<not> truthy_opt (t_blobs (e_table e))" and "truthy_opt (t_partition (e_table e))"
  shows
    "(let name = t_name (e_table e);
          prefix = base_tag name None [] @ '':'';
          listed = ddfs_list ddfs prefix;
          observed = map (drop (length prefix)) listed;
          surviving = e_partition e observed;
          seltags = map (\<lambda>p. base_tag name (Some p) []) surviving
      in get_blobs (WExpr e) ddfs
           = (concat (map (ddfs_blobs ddfs) seltags), DDFS_list prefix # map DDFS_blobs seltags)
         \<and> ((\<forall>tag \<in> set listed. take (length prefix) tag = prefix)
              \<longrightarrow> map (\<lambda>v. prefix @ v) observed = listed)
         \<and> ([] \<notin> set surviving \<longrightarrow> seltags = map (\<lambda>v. prefix @ v) surviving))"
proof -
  have "get_blobs (WExpr e) ddfs
          = (concat (map (ddfs_blobs ddfs) seltags), DDFS_list prefix # map DDFS_blobs seltags)"
    if "prefix = base_tag (t_name (e_table e)) None [] @ '':''"
      and "seltags = map (\<lambda>p. base_tag (t_name (e_table e)) (Some p) [])
                        (e_partition e (map (drop (length prefix)) (ddfs_list ddfs prefix)))"
    for prefix seltags
    using assms that by (simp add: get_blobs_def extend_blobs_eq Let_def)
  then show ?thesis
    unfolding Let_def
    by (intro conjI impI strip_prefix_listed seltags_prefixed) simp_all
qed

theorem C4_partition_pruned_blobs_witness:
  "\<not> truthy_opt (t_blobs (e_table example_expr))
   \<and> truthy_opt (t_partition (e_table example_expr))
   \<and> get_blobs (WExpr example_expr) example_ddfs
       = ([[''disco://n2/hustle:logs:2014-01-02'', ''disco://n1/hustle:logs:2014-01-02'']],
          [DDFS_list ''hustle:logs:'', DDFS_blobs ''hustle:logs:2014-01-02''])
   \<and> ddfs_list example_ddfs ''hustle:logs:''
       = [''hustle:logs:2014-01-01'', ''hustle:logs:2014-01-02'']
   \<and> take (length ''hustle:logs:'') ''hustle:logs:2014-01-01'' = ''hustle:logs:''
   \<and> take (length ''hustle:logs:'') ''hustle:logs:2014-01-02'' = ''hustle:logs:''
   \<and> map (\<lambda>v. ''hustle:logs:'' @ v) [''2014-01-01'', ''2014-01-02'']
       = ddfs_list example_ddfs ''hustle:logs:''
   \<and> e_partition example_expr [''2014-01-01'', ''2014-01-02''] = [''2014-01-02'']
   \<and> map (\<lambda>p. base_tag ''logs'' (Some p) []) [''2014-01-02'']
       = map (\<lambda>v. ''hustle:logs:'' @ v) [''2014-01-02'']"
proof -
  have h1: "\<not> truthy_opt (t_blobs (e_table example_expr))"
    by (simp add: example_expr_def example_logs_def Table_init_def)
  have h2: "truthy_opt (t_partition (e_table example_expr))"
    by (simp add: example_expr_def example_logs_def Table_init_def)
  have name: "t_name (e_table example_expr) = ''logs''"
    by (simp add: example_expr_def example_logs_def Table_init_def)
  have pre: "base_tag ''logs'' None [] @ '':'' = ''hustle:logs:''"
    by (simp add: base_tag_def truthy_str_def)
  have listed: "ddfs_list example_ddfs ''hustle:logs:''
                  = [''hustle:logs:2014-01-01'', ''hustle:logs:2014-01-02'']"
    by (simp add: example_ddfs_def)
  have observed: "map (drop (length ''hustle:logs:''))
                    [''hustle:logs:2014-01-01'', ''hustle:logs:2014-01-02'']
                  = [''2014-01-01'', ''2014-01-02'']"
    by simp
  have surviving: "e_partition example_expr [''2014-01-01'', ''2014-01-02''] = [''2014-01-02'']"
    by (simp add: example_expr_def)
  have blobs: "ddfs_blobs example_ddfs ''hustle:logs:2014-01-02''
                 = [[''disco://n2/hustle:logs:2014-01-02'', ''disco://n1/hustle:logs:2014-01-02'']]"
    by (simp add: example_ddfs_def)
  have starts: "take (length ''hustle:logs:'') ''hustle:logs:2014-01-01'' = ''hustle:logs:''"
    "take (length ''hustle:logs:'') ''hustle:logs:2014-01-02'' = ''hustle:logs:''"
    by simp_all
  note c4 = C4_partition_pruned_blobs [OF h1 h2, of example_ddfs,
      unfolded Let_def name pre listed observed surviving]
  have tags: "map (\<lambda>p. base_tag ''logs'' (Some p) []) [''2014-01-02'']
                = map (\<lambda>v. ''hustle:logs:'' @ v) [''2014-01-02'']"
    using c4 [THEN conjunct2, THEN conjunct2] by simp
  have restored: "map (\<lambda>v. ''hustle:logs:'' @ v) [''2014-01-01'', ''2014-01-02'']
                  = ddfs_list example_ddfs ''hustle:logs:''"
    using c4 [THEN conjunct2, THEN conjunct1] starts by (simp add: listed)
  have "get_blobs (WExpr example_expr) example_ddfs
       = ([[''disco://n2/hustle:logs:2014-01-02'', ''disco://n1/hustle:logs:2014-01-02'']],
          [DDFS_list ''hustle:logs:'', DDFS_blobs ''hustle:logs:2014-01-02''])"
    using c4 [THEN conjunct1] tags by (simp add: blobs)
  with h1 h2 listed starts restored surviving tags show ?thesis
    by blast
qed

text \<open>
  C5: when the base tag of the name exists and \<open>force\<close> is false, \<open>create\<close> returns
  \<open>None\<close>, makes no \<open>setattr\<close> call, and leaves the persisted metadata as it was.
\<close>

theorem C5_create_existing_skipped:
  assumes "ddfs_exists ddfs (base_tag name None [])"
  shows "create ddfs name flds part False
           = (None, [DDFS_exists (base_tag name None []), Print ''Table already exists...''])
         \<and> filter is_setattr (snd (create ddfs name flds part False)) = []
         \<and> persisted (snd (create ddfs name flds part False)) m = m"
  using assms by (simp add: create_def persisted_def)

theorem C5_create_existing_skipped_witness:
  "ddfs_exists example_ddfs (base_tag ''logs'' None [])
   \<and> fst (create example_ddfs ''logs'' [''+$date''] (Some ''date'') False) = None
   \<and> filter is_setattr (snd (create example_ddfs ''logs'' [''+$date''] (Some ''date'') False)) = []"
proof -
  have ex: "ddfs_exists example_ddfs (base_tag ''logs'' None [])"
    by (simp add: example_ddfs_def base_tag_def truthy_str_def)
  show ?thesis
    using ex C5_create_existing_skipped [OF ex, of "[''+$date'']" "Some ''date''" Map.empty]
    by simp
qed

subsection \<open>select\<close>

lemma runs_append: "runs (xs @ ys) = runs xs @ runs ys"
  by (simp add: runs_def List.map_filter_def)

lemma runs_empty:
  "(\<And>e. e \<in> set evs \<Longrightarrow> run_of e = None) \<Longrightarrow> runs evs = []"
  by (induction evs) (simp_all add: runs_def)

lemma runs_get_blobs: "runs (snd (get_blobs whr ddfs)) = []"
  by (rule runs_empty) (auto simp: get_blobs_def Let_def extend_blobs_eq split: if_splits)

lemma runs_collect_blobs:
  "collect_blobs ddfs wheres job_blobs evs = (job_blobs', evs') \<Longrightarrow> runs evs' = runs evs"
proof (induction wheres arbitrary: job_blobs evs)
  case Nil
  then show ?case by simp
next
  case (Cons whr wheres)
  obtain bs es where g: "get_blobs whr ddfs = (bs, es)"
    by (cases "get_blobs whr ddfs")
  then have "runs es = []"
    using runs_get_blobs [of whr ddfs] by simp
  moreover have "runs evs' = runs (evs @ es)"
    using Cons.prems g by (auto dest: Cons.IH)
  ultimately show ?case
    by (simp add: runs_append)
qed

lemma runs_print_separator: "runs (print_separator width) = []"
  by (simp add: print_separator_def runs_def)

lemma runs_Cons:
  "runs (Job_run job name input settings # evs) = (job, name, input, settings) # runs evs"
  "runs (Print txt # evs) = runs evs"
  "runs (Job_wait # evs) = runs evs"
  "runs (Print_line cols width n algn # evs) = runs evs"
  "runs (Dump blobs width # evs) = runs evs"
  "runs [] = []"
  by (simp_all add: runs_def)

lemma runs_select_valid:
  assumes "check_query env project (k_join kw) (k_order_by kw) (k_limit kw) (k_where kw) = None"
  shows "runs (snd (select env project kw))
           = [(job_of project kw,
               ''select_from_'' @ take 64 (str_join ''-'' (map where_name (k_where kw))),
               fst (collect_blobs (s_ddfs kw) (k_where kw) {} []),
               Settings.truncate kw)]"
proof -
  obtain jb evs where c: "collect_blobs (s_ddfs kw) (k_where kw) {} [] = (jb, evs)"
    by (cases "collect_blobs (s_ddfs kw) (k_where kw) {} []")
  have "runs evs = []"
    using runs_collect_blobs [OF c] by (simp add: runs_Cons)
  then show ?thesis
    using assms c
    by (simp add: select_def Let_def Settings.truncate_def job_of_def runs_append
        runs_print_separator runs_Cons split: option.splits)
qed

text \<open>
  C6: when \<open>check_query\<close> raises its validation error for the arguments of a \<open>select\<close>
  call, \<open>select\<close> prints the message, returns \<open>None\<close> and submits no job (nor makes any
  other call).
\<close>

theorem C6_invalid_query_fail_soft:
  assumes "check_query env project (k_join kw) (k_order_by kw) (k_limit kw) (k_where kw) = Some e"
  shows "select env project kw
           = (RNone, [Print (''  Invalid query:'' @ [CHR 0x0A] @ ''    '' @ e)])
         \<and> jobs_submitted (snd (select env project kw)) = []"
  using assms by (simp add: select_def Let_def jobs_submitted_def runs_Cons)

theorem C6_invalid_query_fail_soft_witness:
  "check_query example_env [] (k_join (example_kwargs\<lparr>k_where := []\<rparr>))
       (k_order_by (example_kwargs\<lparr>k_where := []\<rparr>)) (k_limit (example_kwargs\<lparr>k_where := []\<rparr>))
       (k_where (example_kwargs\<lparr>k_where := []\<rparr>))
     = Some ''Where clause must have at least one table.''
   \<and> fst (select example_env [] (example_kwargs\<lparr>k_where := []\<rparr>)) = RNone
   \<and> jobs_submitted (snd (select example_env [] (example_kwargs\<lparr>k_where := []\<rparr>))) = []"
proof -
  have bad: "check_query example_env [] (k_join (example_kwargs\<lparr>k_where := []\<rparr>))
       (k_order_by (example_kwargs\<lparr>k_where := []\<rparr>)) (k_limit (example_kwargs\<lparr>k_where := []\<rparr>))
       (k_where (example_kwargs\<lparr>k_where := []\<rparr>))
     = Some ''Where clause must have at least one table.''"
    by (simp add: example_env_def)
  note c6 = C6_invalid_query_fail_soft [OF bad]
  have "fst (select example_env [] (example_kwargs\<lparr>k_where := []\<rparr>)) = RNone"
    using c6 [THEN conjunct1] by simp
  with bad c6 [THEN conjunct2] show ?thesis
    by blast
qed

text \<open>
  C9, as stated: the job name comes from the sorted table names. \<open>select\<close> joins the names
  in the order of the \<open>where\<close> argument and does not sort them: for the tables \<open>b\<close>, \<open>a\<close>
  the job is named \<open>select_from_b-a\<close>.
\<close>

theorem C9_sorted_job_name_counterexample:
  "check_query example_env [] (k_join example_kwargs) (k_order_by example_kwargs)
       (k_limit example_kwargs) (k_where example_kwargs) = None
   \<and> job_names (snd (select example_env [] example_kwargs)) = [''select_from_b-a'']
   \<and> sorted_job_name (k_where example_kwargs) = ''select_from_a-b''
   \<and> job_names (snd (select example_env [] example_kwargs))
       \<noteq> [sorted_job_name (k_where example_kwargs)]"
proof -
  have ok: "check_query example_env [] (k_join example_kwargs) (k_order_by example_kwargs)
       (k_limit example_kwargs) (k_where example_kwargs) = None"
    by (simp add: example_env_def example_kwargs_def)
  have names: "map where_name (k_where example_kwargs) = [''b'', ''a'']"
    by (simp add: example_kwargs_def Table_init_def)
  have "job_names (snd (select example_env [] example_kwargs)) = [''select_from_b-a'']"
    by (simp add: job_names_def runs_select_valid [OF ok] names)
  moreover have "sorted_job_name (k_where example_kwargs) = ''select_from_a-b''"
    by (simp add: sorted_job_name_def names)
  ultimately show ?thesis
    using ok by simp
qed

text \<open>
  C9, amended: for every \<open>select\<close> call that passes validation, exactly one job is
  submitted, and its name is \<open>select_from_\<close> followed by the first 64 characters of the
  table names of the \<open>where\<close> predicates, in the order given, joined by \<open>-\<close>.
\<close>

theorem C9_job_name:
  assumes "check_query env project (k_join kw) (k_order_by kw) (k_limit kw) (k_where kw) = None"
  shows "job_names (snd (select env project kw))
           = [''select_from_'' @ take 64 (str_join ''-'' (map where_name (k_where kw)))]
         \<and> length (take 64 (str_join ''-'' (map where_name (k_where kw)))) \<le> 64"
  by (simp add: job_names_def runs_select_valid [OF assms])

theorem C9_job_name_witness:
  "check_query example_env [] (k_join example_kwargs) (k_order_by example_kwargs)
       (k_limit example_kwargs) (k_where example_kwargs) = None
   \<and> job_names (snd (select example_env [] example_kwargs)) = [''select_from_b-a'']"
proof -
  have ok: "check_query example_env [] (k_join example_kwargs) (k_order_by example_kwargs)
       (k_limit example_kwargs) (k_where example_kwargs) = None"
    by (simp add: example_env_def example_kwargs_def)
  have names: "map where_name (k_where example_kwargs) = [''b'', ''a'']"
    by (simp add: example_kwargs_def Table_init_def)
  show ?thesis
    using ok C9_job_name [OF ok] by (simp add: names)
qed

text \<open>
  C10, as stated: a call with a negative partition hint behaves as the same call with the
  hint 0. The clamped value goes to the \<open>SelectPipe\<close> constructor only; the settings
  forwarded to \<open>job.run\<close> still hold the caller's value, so the two calls differ there.
\<close>

theorem C10_forwarded_partition_counterexample:
  "map s_partition (settings_forwarded
       (snd (select example_env [] (example_kwargs\<lparr>s_partition := Some (- 1)\<rparr>)))) = [Some (- 1)]
   \<and> map s_partition (settings_forwarded
       (snd (select example_env [] (example_kwargs\<lparr>s_partition := Some 0\<rparr>)))) = [Some 0]
   \<and> select example_env [] (example_kwargs\<lparr>s_partition := Some (- 1)\<rparr>)
       \<noteq> select example_env [] (example_kwargs\<lparr>s_partition := Some 0\<rparr>)"
proof -
  have ok: "check_query example_env [] (k_join (example_kwargs\<lparr>s_partition := p\<rparr>))
       (k_order_by (example_kwargs\<lparr>s_partition := p\<rparr>))
       (k_limit (example_kwargs\<lparr>s_partition := p\<rparr>))
       (k_where (example_kwargs\<lparr>s_partition := p\<rparr>)) = None" for p
    by (simp add: example_env_def example_kwargs_def)
  have fwd: "map s_partition (settings_forwarded
       (snd (select example_env [] (example_kwargs\<lparr>s_partition := p\<rparr>)))) = [p]" for p
    by (simp add: settings_forwarded_def runs_select_valid [OF ok] Settings.truncate_def)
  have "snd (select example_env [] (example_kwargs\<lparr>s_partition := Some (- 1)\<rparr>))
       \<noteq> snd (select example_env [] (example_kwargs\<lparr>s_partition := Some 0\<rparr>))"
    using fwd [of "Some (- 1)"] fwd [of "Some 0"] by auto
  then have "select example_env [] (example_kwargs\<lparr>s_partition := Some (- 1)\<rparr>)
       \<noteq> select example_env [] (example_kwargs\<lparr>s_partition := Some 0\<rparr>)"
    by auto
  with fwd show ?thesis by blast
qed

text \<open>
  C10, amended: for a negative partition hint, \<open>select\<close> constructs the same job, under
  the same name and with the same input, as the same call with the hint 0; in a call that
  passes validation the \<open>SelectPipe\<close> is built with the hint when it is non-negative and
  with 0 when it is negative, and the settings forwarded to \<open>job.run\<close> keep the caller's
  hint.
\<close>

theorem C10_partition_clamped:
  "(p < 0 \<longrightarrow>
      jobs_submitted (snd (select env project (kw\<lparr>s_partition := Some p\<rparr>)))
        = jobs_submitted (snd (select env project (kw\<lparr>s_partition := Some 0\<rparr>))))
   \<and> (check_query env project (k_join kw) (k_order_by kw) (k_limit kw) (k_where kw) = None \<longrightarrow>
        jobs_submitted (snd (select env project (kw\<lparr>s_partition := Some p\<rparr>)))
          = [(job_of project (kw\<lparr>s_partition := Some (if p < 0 then 0 else p)\<rparr>),
              ''select_from_'' @ take 64 (str_join ''-'' (map where_name (k_where kw))),
              fst (collect_blobs (s_ddfs kw) (k_where kw) {} []))]
        \<and> map (\<lambda>(job, name, input). sp_partition job)
              (jobs_submitted (snd (select env project (kw\<lparr>s_partition := Some p\<rparr>))))
            = [if p < 0 then 0 else p]
        \<and> map s_partition
              (settings_forwarded (snd (select env project (kw\<lparr>s_partition := Some p\<rparr>))))
            = [Some p])"
proof (cases "check_query env project (k_join kw) (k_order_by kw) (k_limit kw) (k_where kw)")
  case None
  then have ok: "check_query env project (k_join (kw\<lparr>s_partition := q\<rparr>))
       (k_order_by (kw\<lparr>s_partition := q\<rparr>)) (k_limit (kw\<lparr>s_partition := q\<rparr>))
       (k_where (kw\<lparr>s_partition := q\<rparr>)) = None" for q
    by simp
  show ?thesis
    by (simp add: jobs_submitted_def settings_forwarded_def runs_select_valid [OF ok]
        job_of_def Settings.truncate_def)
next
  case (Some e)
  then have "select env project (kw\<lparr>s_partition := q\<rparr>)
               = (RNone, [Print (''  Invalid query:'' @ [CHR 0x0A] @ ''    '' @ e)])" for q
    by (simp add: select_def Let_def)
  with Some show ?thesis
    by simp
qed

theorem C10_partition_clamped_witness:
  "check_query example_env [] (k_join example_kwargs) (k_order_by example_kwargs)
       (k_limit example_kwargs) (k_where example_kwargs) = None
   \<and> (- 5 :: int) < 0
   \<and> jobs_submitted (snd (select example_env [] (example_kwargs\<lparr>s_partition := Some (- 5)\<rparr>)))
       = jobs_submitted (snd (select example_env [] (example_kwargs\<lparr>s_partition := Some 0\<rparr>)))
   \<and> map (\<lambda>(job, name, input). sp_partition job)
         (jobs_submitted (snd (select example_env [] (example_kwargs\<lparr>s_partition := Some (- 5)\<rparr>))))
       = [0]"
proof -
  have ok: "check_query example_env [] (k_join example_kwargs) (k_order_by example_kwargs)
       (k_limit example_kwargs) (k_where example_kwargs) = None"
    by (simp add: example_env_def example_kwargs_def)
  have neg: "(- 5 :: int) < 0"
    by simp
  note c10 = C10_partition_clamped [of "- 5" example_env "[]" example_kwargs]
  have same: "jobs_submitted (snd (select example_env [] (example_kwargs\<lparr>s_partition := Some (- 5)\<rparr>)))
       = jobs_submitted (snd (select example_env [] (example_kwargs\<lparr>s_partition := Some 0\<rparr>)))"
    using neg c10 [THEN conjunct1] by blast
  have "map (\<lambda>(job, name, input). sp_partition job)
         (jobs_submitted (snd (select example_env [] (example_kwargs\<lparr>s_partition := Some (- 5)\<rparr>))))
       = [0]"
    using c10 [THEN conjunct2, THEN mp, OF ok, THEN conjunct2, THEN conjunct1] by simp
  with ok neg same show ?thesis
    by blast
qed

end
